theory Spec2Isabelle
  imports Complex_Main
begin

section \<open>Python and numpy values\<close>

text \<open>
  The library is Python over numpy arrays. Arrays are lists (a vector) and lists of rows
  (a matrix); floating-point numbers are exact reals, so rounding is not part of the model.
  Every exception the modelled code can raise is a value of \<open>error\<close>. The spec's
  error taxonomy names \<open>DegenerateWeightsError\<close>, \<open>NotFittedError\<close> and
  \<open>InvalidParameterError\<close>; the Python raises \<open>ValueError\<close> with a message where
  it raises a parameter error itself.
\<close>

datatype error =
    IndexError
  | KeyError
  | AttributeError string
  | TypeError
  | ValueError string
  | NotFittedError
  | DegenerateWeightsError nat
  | LinAlgError

type_synonym 'a vec = "'a list"
type_synonym 'a mat = "'a list list"

text \<open>Python indexing \<open>xs[i]\<close>: a negative index counts from the end.\<close>

definition py_get :: "'a list \<Rightarrow> int \<Rightarrow> error + 'a" where
  "py_get xs i =
     (let len = int (length xs); j = (if i < 0 then len + i else i)
      in if 0 \<le> j \<and> j < len then Inr (xs ! nat j) else Inl IndexError)"

text \<open>Item assignment \<open>xs[i] = v\<close> for an index that \<open>enumerate\<close> produced.\<close>

definition py_set :: "'a list \<Rightarrow> nat \<Rightarrow> 'a \<Rightarrow> error + 'a list" where
  "py_set xs i v = (if i < length xs then Inr (xs[i := v]) else Inl IndexError)"

subsection \<open>Linear algebra on lists\<close>

definition dot :: "'a::{monoid_add,times} vec \<Rightarrow> 'a vec \<Rightarrow> 'a" where
  "dot xs ys = sum_list (map2 (*) xs ys)"

definition ncols :: "'a mat \<Rightarrow> nat" where
  "ncols A = (case A of [] \<Rightarrow> 0 | r # _ \<Rightarrow> length r)"

definition col :: "'a mat \<Rightarrow> nat \<Rightarrow> 'a vec" where
  "col A j = map (\<lambda>r. r ! j) A"

text \<open>\<open>A.T\<close>, \<open>A @ B\<close> and \<open>A @ v\<close>.\<close>

definition mat_T :: "'a mat \<Rightarrow> 'a mat" where
  "mat_T A = map (col A) [0..<ncols A]"

definition matmul :: "'a::{monoid_add,times} mat \<Rightarrow> 'a mat \<Rightarrow> 'a mat" where
  "matmul A B = map (\<lambda>r. map (\<lambda>j. dot r (col B j)) [0..<ncols B]) A"

definition matvec :: "'a::{monoid_add,times} mat \<Rightarrow> 'a vec \<Rightarrow> 'a vec" where
  "matvec A v = map (\<lambda>r. dot r v) A"


text \<open>Entry-wise sum, difference and scaling of real matrices.\<close>

definition mat_add :: "real mat \<Rightarrow> real mat \<Rightarrow> real mat" where
  "mat_add A B = map2 (map2 (+)) A B"

definition mat_sub :: "real mat \<Rightarrow> real mat \<Rightarrow> real mat" where
  "mat_sub A B = map2 (map2 (-)) A B"

definition mat_scale :: "real \<Rightarrow> real mat \<Rightarrow> real mat" where
  "mat_scale c A = map (map (\<lambda>x. c * x)) A"

subsection \<open>Floating-point values that are not numbers\<close>

text \<open>
  Where the code divides by a norm, or tests for \<open>nan\<close>, an array entry is an
  \<open>npfloat\<close>: a real, an infinity or \<open>nan\<close>, with the arithmetic of IEEE 754 on these
  (rounding and the sign of zero are not modelled). numpy raises nothing on a division by
  zero: it warns and stores \<open>inf\<close> or \<open>nan\<close>.
\<close>

datatype npfloat = Num real | PInf | NInf | NaN

instantiation npfloat :: "{monoid_add,times}"
begin

definition zero_npfloat :: npfloat where
  "zero_npfloat = Num 0"

fun plus_npfloat :: "npfloat \<Rightarrow> npfloat \<Rightarrow> npfloat" where
  "plus_npfloat (Num a) (Num b) = Num (a + b)"
| "plus_npfloat NaN y = NaN"
| "plus_npfloat x NaN = NaN"
| "plus_npfloat PInf NInf = NaN"
| "plus_npfloat NInf PInf = NaN"
| "plus_npfloat PInf y = PInf"
| "plus_npfloat x PInf = PInf"
| "plus_npfloat NInf y = NInf"
| "plus_npfloat x NInf = NInf"

fun times_npfloat :: "npfloat \<Rightarrow> npfloat \<Rightarrow> npfloat" where
  "times_npfloat (Num a) (Num b) = Num (a * b)"
| "times_npfloat NaN y = NaN"
| "times_npfloat x NaN = NaN"
| "times_npfloat PInf PInf = PInf"
| "times_npfloat PInf NInf = NInf"
| "times_npfloat NInf PInf = NInf"
| "times_npfloat NInf NInf = PInf"
| "times_npfloat PInf (Num b) = (if b = 0 then NaN else if 0 < b then PInf else NInf)"
| "times_npfloat NInf (Num b) = (if b = 0 then NaN else if 0 < b then NInf else PInf)"
| "times_npfloat (Num a) PInf = (if a = 0 then NaN else if 0 < a then PInf else NInf)"
| "times_npfloat (Num a) NInf = (if a = 0 then NaN else if 0 < a then NInf else PInf)"

instance
proof
  fix a b c :: npfloat
  show "a + b + c = a + (b + c)"
    by (cases a; cases b; cases c) simp_all
  show "0 + a = a"
    by (cases a) (simp_all add: zero_npfloat_def)
  show "a + 0 = a"
    by (cases a) (simp_all add: zero_npfloat_def)
qed

end

text \<open>\<open>x / y\<close> and \<open>np.sqrt(x)\<close> on floating-point values.\<close>

fun np_div :: "npfloat \<Rightarrow> npfloat \<Rightarrow> npfloat" where
  "np_div (Num a) (Num b) =
     (if b = 0 then (if a = 0 then NaN else if 0 < a then PInf else NInf) else Num (a / b))"
| "np_div NaN y = NaN"
| "np_div x NaN = NaN"
| "np_div (Num a) y = Num 0"
| "np_div PInf (Num b) = (if 0 \<le> b then PInf else NInf)"
| "np_div NInf (Num b) = (if 0 \<le> b then NInf else PInf)"
| "np_div x y = NaN"

fun np_sqrt :: "npfloat \<Rightarrow> npfloat" where
  "np_sqrt (Num a) = (if a < 0 then NaN else Num (sqrt a))"
| "np_sqrt PInf = PInf"
| "np_sqrt x = NaN"

text \<open>\<open>np.linalg.norm\<close> of a vector of floating-point values.\<close>

definition np_norm :: "npfloat vec \<Rightarrow> npfloat" where
  "np_norm v = np_sqrt (sum_list (map (\<lambda>x. x * x) v))"



section \<open>The elastic inner loop, \<open>models/_iterative/_elastic.py\<close>\<close>

text \<open>
  The state of \<open>_ElasticInnerLoop\<close> that \<open>_update_view\<close> reads and writes: the mode flag,
  the row count \<open>self.n\<close>, and per view the current score vector and weight vector.
\<close>

record elastic_loop =
  el_maxvar :: bool
  el_n :: nat
  el_scores :: "npfloat vec list"
  el_weights :: "npfloat vec list"

text \<open>A raising step ends the method: the rest is not run.\<close>

fun ebind :: "error + 'a \<Rightarrow> ('a \<Rightarrow> error + 'b) \<Rightarrow> error + 'b" where
  "ebind (Inl e) f = Inl e"
| "ebind (Inr x) f = f x"

text \<open>\<open>a.mean(axis=0)\<close> of stacked vectors: the entry-wise mean over the views.\<close>

definition np_mean_axis0 :: "npfloat vec list \<Rightarrow> npfloat vec" where
  "np_mean_axis0 ss =
     map (\<lambda>j. np_div (sum_list (col ss j)) (Num (real (length ss)))) [0..<ncols ss]"

text \<open>\<open>v / (nrm / np.sqrt(n))\<close>, the rescaling both modes use.\<close>

definition np_rescale :: "npfloat vec \<Rightarrow> npfloat \<Rightarrow> nat \<Rightarrow> npfloat vec" where
  "np_rescale v nrm n = map (\<lambda>x. np_div x (np_div nrm (np_sqrt (Num (real n))))) v"

text \<open>
  Modelled from the spec: \<open>cca_zoo.utils._check_converged_weights\<close> is imported by
  that file and is not among the sources. The spec (4.2c) has the SUMCOR update
  "fail with a DegenerateWeightsError if the unscaled weight is (numerically) all-zero".
\<close>

definition check_converged_weights :: "npfloat vec \<Rightarrow> nat \<Rightarrow> error + unit" where
  "check_converged_weights w view_index =
     (if list_all (\<lambda>x. x = Num 0) w then Inl (DegenerateWeightsError view_index) else Inr ())"

text \<open>
  The first statement of \<open>_update_view\<close>: the regression target. MAXVAR takes the mean
  score rescaled to norm \<open>sqrt n\<close>; SUMCOR takes \<open>self.scores[view_index - 1]\<close>.
\<close>

definition regression_target :: "elastic_loop \<Rightarrow> nat \<Rightarrow> error + npfloat vec" where
  "regression_target st view_index =
     (if el_maxvar st
      then (let target = np_mean_axis0 (el_scores st)
            in Inr (np_rescale target (np_norm target) (el_n st)))
      else py_get (el_scores st) (int view_index - 1))"

text \<open>
  \<open>_update_view\<close>. The regression solver (\<open>self._elastic_solver\<close>, an sklearn regressor
  per view) is the parameter \<open>elastic_solver view_index X y\<close>, returning the coefficient
  vector. In SUMCOR mode the check comes first and the division is by
  \<open>np.linalg.norm(views[view_index] @ self.weights[view_index]) / np.sqrt(self.n)\<close>,
  whatever that value is.
\<close>

definition update_view ::
  "(nat \<Rightarrow> npfloat mat \<Rightarrow> npfloat vec \<Rightarrow> npfloat vec) \<Rightarrow> npfloat mat list \<Rightarrow> nat
     \<Rightarrow> elastic_loop \<Rightarrow> error + elastic_loop" where
  "update_view elastic_solver views view_index st =
     ebind (regression_target st view_index) (\<lambda>target.
     ebind (py_get views (int view_index)) (\<lambda>X.
     ebind (py_set (el_weights st) view_index (elastic_solver view_index X target)) (\<lambda>ws.
     ebind (if el_maxvar st then Inr ws
            else ebind (check_converged_weights (ws ! view_index) view_index) (\<lambda>_.
                 Inr (ws[view_index := np_rescale (ws ! view_index)
                                          (np_norm (matvec X (ws ! view_index))) (el_n st)])))
       (\<lambda>ws'.
     ebind (py_set (el_scores st) view_index (matvec X (ws' ! view_index))) (\<lambda>ss.
     Inr (st\<lparr>el_weights := ws', el_scores := ss\<rparr>))))))"


definition sumcor_example :: elastic_loop where
  "sumcor_example = \<lparr>el_maxvar = False, el_n = 4,
      el_scores = [map Num [1, -1, 1, -1], map Num [1, -1, 1, -1]],
      el_weights = [[Num 1], [Num 1]]\<rparr>"




section \<open>Early stopping of the inner loops\<close>

text \<open>
  \<open>_ElasticInnerLoop._early_stop\<close> reads the last two recorded objective values,
  \<open>self.track["objective"][-2]\<close> and \<open>[-1]\<close>, and the loop's \<open>self.tol\<close>.
\<close>

definition elastic_early_stop :: "real \<Rightarrow> real list \<Rightarrow> error + bool" where
  "elastic_early_stop tol objective =
     (case py_get objective (- 2) of
        Inl e \<Rightarrow> Inl e
      | Inr a \<Rightarrow>
          (case py_get objective (- 1) of
             Inl e \<Rightarrow> Inl e
           | Inr b \<Rightarrow> Inr (\<bar>a - b\<bar> < tol)))"

text \<open>
  The state of \<open>_AltMaxVarLoop\<close> (\<open>models/_iterative/_altmaxvar.py\<close>): the tolerance the
  constructor stores, the per-view scores and weights, the consensus target \<open>self.G\<close>
  (absent until the first \<open>_update_target\<close>) and the objective trace. The entries of the
  arrays are of type \<open>'a\<close>: reals, or \<open>npfloat\<close> where \<open>nan\<close> matters.
\<close>

record 'a altmaxvar_inner_loop =
  ail_tol :: real
  ail_scores :: "'a mat list"
  ail_weights :: "'a mat list"
  ail_G :: "'a mat option"
  ail_objective :: "real list"

text \<open>\<open>_AltMaxVarLoop._early_stop\<close>: the threshold is the literal \<open>1e-9\<close>.\<close>

definition altmaxvar_early_stop :: "'a altmaxvar_inner_loop \<Rightarrow> error + bool" where
  "altmaxvar_early_stop st =
     (case py_get (ail_objective st) (- 2) of
        Inl e \<Rightarrow> Inl e
      | Inr a \<Rightarrow>
          (case py_get (ail_objective st) (- 1) of
             Inl e \<Rightarrow> Inl e
           | Inr b \<Rightarrow> Inr (a - b < 1 / 10 ^ 9)))"

text \<open>A loop built with \<open>tol = 1e-3\<close> whose objective last fell from 1 to 0.9995.\<close>

definition slow_descent :: "real altmaxvar_inner_loop" where
  "slow_descent = \<lparr>ail_tol = 1 / 1000, ail_scores = [], ail_weights = [], ail_G = None,
     ail_objective = [1, 9995 / 10000]\<rparr>"

section \<open>\<open>transform\<close> of the estimators\<close>

text \<open>
  \<open>_CCA_Base\<close> (\<open>models/cca_base.py\<close>). The constructor sets \<open>weights_list = None\<close> and
  does not create \<open>view_means\<close>; only \<open>demean_data\<close>, called by a fit, creates it. An
  absent attribute is \<open>None\<close> in \<open>cb_view_means\<close>; Python's \<open>None\<close> is \<open>None\<close> in
  \<open>cb_weights_list\<close>.
\<close>

record cca_base =
  cb_latent_dims :: nat
  cb_weights_list :: "real mat list option"
  cb_view_means :: "real vec list option"

definition cca_base_init :: "nat \<Rightarrow> cca_base" where
  "cca_base_init latent_dims =
     \<lparr>cb_latent_dims = latent_dims, cb_weights_list = None, cb_view_means = None\<rparr>"

text \<open>\<open>view - mean\<close>: numpy subtracts the mean row from every row of the view.\<close>

definition sub_rows :: "real mat \<Rightarrow> real vec \<Rightarrow> real mat" where
  "sub_rows view mu = map (\<lambda>r. map2 (-) r mu) view"

text \<open>
  The loop of \<open>_CCA_Base.transform\<close> over \<open>zip(views, view_indices)\<close>. Python evaluates
  \<open>self.view_means\<close> first (AttributeError when absent), then its item, then
  \<open>self.weights_list[view_index]\<close> (TypeError on \<open>None\<close>).
\<close>

fun transform_loop :: "cca_base \<Rightarrow> (real mat \<times> int) list \<Rightarrow> error + real mat list" where
  "transform_loop est [] = Inr []"
| "transform_loop est ((view, view_index) # rest) =
     (case cb_view_means est of
        None \<Rightarrow> Inl (AttributeError ''view_means'')
      | Some means \<Rightarrow>
     (case py_get means view_index of
        Inl e \<Rightarrow> Inl e
      | Inr mu \<Rightarrow>
     (case cb_weights_list est of
        None \<Rightarrow> Inl TypeError
      | Some ws \<Rightarrow>
     (case py_get ws view_index of
        Inl e \<Rightarrow> Inl e
      | Inr W \<Rightarrow>
     (case transform_loop est rest of
        Inl e \<Rightarrow> Inl e
      | Inr outs \<Rightarrow> Inr (matmul (sub_rows view mu) W # outs))))))"

definition transform ::
  "cca_base \<Rightarrow> real mat list \<Rightarrow> int list option \<Rightarrow> error + real mat list" where
  "transform est views view_indices =
     transform_loop est
       (zip views (case view_indices of
                     None \<Rightarrow> map int [0..<length views]
                   | Some vi \<Rightarrow> vi))"

text \<open>
  \<open>KCCA.transform\<close> (\<open>models/_multiview/_mcca.py\<close>). \<open>weights\<close> is created by a fit;
  sklearn's \<open>check_is_fitted(self, attributes=["weights"])\<close> raises \<open>NotFittedError\<close>
  when the attribute is absent. \<open>_check_views\<close> followed by \<open>_centre_scale_transform\<close>
  (both outside the sources) is the parameter \<open>prepare\<close>, and \<open>_get_kernel\<close>
  (sklearn's \<open>pairwise_kernels\<close>) is \<open>get_kernel\<close>.
\<close>

record kcca =
  kc_weights :: "real mat list option"
  kc_train_views :: "real mat list"

fun kernel_scores ::
  "(nat \<Rightarrow> real mat \<Rightarrow> real mat \<Rightarrow> real mat) \<Rightarrow> real mat list \<Rightarrow> real mat list
     \<Rightarrow> (nat \<times> real mat) list \<Rightarrow> error + real mat list" where
  "kernel_scores get_kernel train ws [] = Inr []"
| "kernel_scores get_kernel train ws ((i, view) # rest) =
     (case py_get train (int i) of
        Inl e \<Rightarrow> Inl e
      | Inr tv \<Rightarrow>
     (case kernel_scores get_kernel train ws rest of
        Inl e \<Rightarrow> Inl e
      | Inr outs \<Rightarrow>
     (case py_get ws (int i) of
        Inl e \<Rightarrow> Inl e
      | Inr W \<Rightarrow> Inr (matmul (mat_T (get_kernel i tv view)) W # outs))))"

definition kcca_transform ::
  "(real mat list \<Rightarrow> error + real mat list) \<Rightarrow> (nat \<Rightarrow> real mat \<Rightarrow> real mat \<Rightarrow> real mat)
     \<Rightarrow> kcca \<Rightarrow> real mat list \<Rightarrow> error + real mat list" where
  "kcca_transform prepare get_kernel est views =
     (case kc_weights est of
        None \<Rightarrow> Inl NotFittedError
      | Some ws \<Rightarrow>
     (case prepare views of
        Inl e \<Rightarrow> Inl e
      | Inr vs \<Rightarrow> kernel_scores get_kernel (kc_train_views est) ws (zip [0..<length vs] vs)))"

section \<open>The proximal-operator registry, \<open>linear/_iterative/_altmaxvar.py\<close>\<close>

text \<open>
  Keyword arguments are an association list. The registry \<open>PROXIMAL_OPERATORS\<close> maps a
  name to a class of pyproximal; calling that class with keyword arguments is the
  parameter \<open>make_operator name kwargs\<close>, which may raise. \<open>PROXIMAL_PARAMS\<close> is the
  table of parameter names per kind, as the source lists it.
\<close>

datatype pval = PReal real | PBool bool | PInt int

type_synonym kwargs = "(string \<times> pval) list"

text \<open>
  What the caller passes as \<open>proximal\<close>: a string, a callable, or any other object
  (neither a key of the registry nor callable).
\<close>

datatype 'op proximal = Tag string | Callable "kwargs \<Rightarrow> error + 'op" | NotCallable

definition PROXIMAL_OPERATORS :: "string list" where
  "PROXIMAL_OPERATORS =
     [''L0'', ''L0Ball'', ''L1'', ''L1Ball'', ''L2'', ''L21'', ''L21_plus_L1'', ''Nuclear'',
      ''NuclearBall'', ''Log'', ''Log1'', ''Euclidean'', ''EuclideanBall'']"

definition PROXIMAL_PARAMS :: "(string \<times> string list) list" where
  "PROXIMAL_PARAMS =
     [(''Dummy'', []),
      (''L0'', [''sigma'']),
      (''L0Ball'', [''radius'']),
      (''L1'', [''sigma'']),
      (''L1Ball'', [''n'', ''radius'']),
      (''L2'', [''sigma'']),
      (''L21'', [''ndim'', ''sigma'']),
      (''L21_plus_L1'', [''sigma'', ''rho'']),
      (''TV'', [''sigma'', ''isotropic'', ''dims'']),
      (''Nuclear'', [''dim'', ''sigma'']),
      (''NuclearBall'', [''dims'', ''radius'']),
      (''Log'', [''sigma'', ''gamma'']),
      (''Log1'', [''sigma'', ''delta'']),
      (''Euclidean'', [''sigma'']),
      (''TVL1'', [''sigma'', ''shape'', ''l1_ratio''])]"

text \<open>
  \<open>{k: params[k] for k in params if k in PROXIMAL_PARAMS[proximal]}\<close>: the table is
  looked up once per key of \<open>params\<close>, so a kind missing from the table raises
  \<open>KeyError\<close> only when \<open>params\<close> is not empty.
\<close>

fun filter_kwargs :: "string \<Rightarrow> kwargs \<Rightarrow> error + kwargs" where
  "filter_kwargs proximal [] = Inr []"
| "filter_kwargs proximal ((k, v) # params) =
     (case map_of PROXIMAL_PARAMS proximal of
        None \<Rightarrow> Inl KeyError
      | Some allowed \<Rightarrow>
          (case filter_kwargs proximal params of
             Inl e \<Rightarrow> Inl e
           | Inr kept \<Rightarrow> Inr (if k \<in> set allowed then (k, v) # kept else kept)))"

text \<open>
  \<open>_proximal_operators\<close>. The function has an \<open>if\<close> and an \<open>elif\<close> and no \<open>else\<close>:
  where neither test holds it ends without a \<open>return\<close>, and the caller receives
  \<open>None\<close>. The result \<open>Inr None\<close> is that \<open>None\<close>.
\<close>

definition proximal_operators ::
  "(string \<Rightarrow> kwargs \<Rightarrow> error + 'op) \<Rightarrow> 'op proximal \<Rightarrow> bool \<Rightarrow> kwargs
     \<Rightarrow> error + 'op option" where
  "proximal_operators make_operator proximal filter_params params =
     (case proximal of
        Tag name \<Rightarrow>
          if name \<in> set PROXIMAL_OPERATORS
          then (case (if filter_params then filter_kwargs name params else Inr params) of
                  Inl e \<Rightarrow> Inl e
                | Inr params' \<Rightarrow> map_sum id Some (make_operator name params'))
          else Inr None
      | Callable f \<Rightarrow> map_sum id Some (f params)
      | NotCallable \<Rightarrow> Inr None)"

section \<open>Initialization, \<open>models/_iterative/_altmaxvar.py\<close>\<close>

text \<open>
  An array with its number of dimensions: the schemes differ in it. \<open>shape\<close> is numpy's
  \<open>shape\<close> (for a matrix without rows the column count reads 0).
\<close>

datatype ndarray = Arr1 "real vec" | Arr2 "real mat"

fun shape :: "ndarray \<Rightarrow> nat list" where
  "shape (Arr1 v) = [length v]"
| "shape (Arr2 m) = [length m, ncols m]"

text \<open>
  The generator \<open>random_state\<close> is a fixed sequence of samples and a position in it;
  \<open>random_state.normal(0, 1, size=sz)\<close> reads the next \<open>sz\<close> samples. That the samples
  follow the standard normal distribution is not part of the model.
\<close>

record random_state =
  rs_stream :: "nat \<Rightarrow> real"
  rs_pos :: nat

definition normal :: "random_state \<Rightarrow> nat \<Rightarrow> real vec \<times> random_state" where
  "normal rs sz = (map (rs_stream rs) [rs_pos rs..<rs_pos rs + sz],
                   rs\<lparr>rs_pos := rs_pos rs + sz\<rparr>)"

text \<open>\<open>[random_state.normal(0, 1, size=(view.shape[0])) for view in views]\<close>.\<close>

fun random_scores :: "random_state \<Rightarrow> real mat list \<Rightarrow> ndarray list" where
  "random_scores rs [] = []"
| "random_scores rs (view # views) =
     (let (x, rs') = normal rs (length view) in Arr1 x # random_scores rs' views)"

definition np_ones :: "nat \<Rightarrow> nat \<Rightarrow> real mat" where
  "np_ones n k = replicate n (replicate k 1)"

text \<open>
  \<open>AltMaxVar._initialization\<close>, returning the per-view initial scores. The closed-form
  solver \<open>rCCA(latent_dims, c).fit_transform(views)\<close> is outside the sources and is
  the parameter \<open>rCCA_fit_transform latent_dims c views\<close> (\<open>c = None\<close> when the call
  passes none). The message of the last branch is the source's string literal, which is
  not an f-string.
\<close>

definition initialization ::
  "(nat \<Rightarrow> real option \<Rightarrow> real mat list \<Rightarrow> real mat list) \<Rightarrow> real mat list \<Rightarrow> string
     \<Rightarrow> random_state \<Rightarrow> nat \<Rightarrow> error + ndarray list" where
  "initialization rCCA_fit_transform views init random_state latent_dims =
     (if init = ''random'' then Inr (random_scores random_state views)
      else if init = ''uniform''
        then Inr (map (\<lambda>view. Arr2 (np_ones (length view) latent_dims)) views)
      else if init = ''pls''
        then Inr (map Arr2 (rCCA_fit_transform latent_dims (Some 1) views))
      else if init = ''cca''
        then Inr (map Arr2 (rCCA_fit_transform latent_dims None views))
      else Inl (ValueError
        ''Initialization {type} not supported. Pass a generator implementing this method''))"

definition three_by_two :: "real mat" where
  "three_by_two = [[1, 2], [3, 4], [5, 6]]"

section \<open>The PMD weight update, \<open>linear/_iterative/_scca_pmd.py\<close>\<close>

text \<open>
  \<open>np.stack\<close> of a list of matrices raises \<open>ValueError\<close> for an empty list and for
  matrices of different shapes; \<open>sum_axis0 n k\<close> is \<open>sum(axis=0)\<close> of stacked
  \<open>n\<close> by \<open>k\<close> matrices.
\<close>

definition np_stack :: "'a mat list \<Rightarrow> error + 'a mat list" where
  "np_stack arrays =
     (case arrays of
        [] \<Rightarrow> Inl (ValueError ''need at least one array to stack'')
      | A # _ \<Rightarrow>
          if list_all (\<lambda>B. length B = length A \<and> ncols B = ncols A) arrays
          then Inr arrays
          else Inl (ValueError ''all input arrays must have the same shape''))"

definition sum_axis0 :: "nat \<Rightarrow> nat \<Rightarrow> 'a::monoid_add mat list \<Rightarrow> 'a mat" where
  "sum_axis0 n k arrays =
     map (\<lambda>r. map (\<lambda>c. sum_list (map (\<lambda>A. A ! r ! c) arrays)) [0..<k]) [0..<n]"

text \<open>
  The fields of \<open>SCCA_PMD\<close> that \<open>_update_weights\<close> uses. \<open>pmd_t\<close> is the attribute
  \<open>self.t\<close>: absent (\<open>None\<close>) until the first update creates it.
\<close>

record scca_pmd =
  pmd_tau :: "real list"
  pmd_positive :: "bool list"
  pmd_tol :: real
  pmd_weights :: "real mat list"
  pmd_t :: "real list option"

text \<open>
  Modelled from the spec: \<open>self.transform\<close> is inherited from \<open>BaseIterative\<close>, which is
  not among the sources. The spec (section 3) has \<open>Scores[i] = View[i] @ WeightMatrix[i]\<close>.
\<close>

definition pmd_transform :: "scca_pmd \<Rightarrow> real mat list \<Rightarrow> real mat list" where
  "pmd_transform st views = map2 matmul views (pmd_weights st)"

text \<open>
  The first statement of \<open>_update_weights\<close>: unless \<open>self.t\<close> exists,
  \<open>self.t = [max(1, x * y) for x, y in zip(self.tau, shape_sqrts)]\<close> with
  \<open>shape_sqrts\<close> the square roots of the weights' row counts. \<open>self.t\<close> is computed once
  and kept: a later update reads what the first one stored.
\<close>

definition pmd_bounds :: "scca_pmd \<Rightarrow> real list" where
  "pmd_bounds st =
     (let shape_sqrts = map (\<lambda>weight. sqrt (real (length weight))) (pmd_weights st)
      in map2 (\<lambda>x y. max 1 (x * y)) (pmd_tau st) shape_sqrts)"

definition set_t :: "scca_pmd \<Rightarrow> scca_pmd" where
  "set_t st =
     (case pmd_t st of
        Some _ \<Rightarrow> st
      | None \<Rightarrow> st\<lparr>pmd_t := Some (pmd_bounds st)\<rparr>)"












section \<open>The consensus target\<close>

text \<open>
  \<open>is_mat n k A\<close>: \<open>A\<close> has shape \<open>(n, k)\<close>. \<open>eye k\<close> is the identity and \<open>diag S\<close>
  the diagonal matrix of a vector.
\<close>

definition is_mat :: "nat \<Rightarrow> nat \<Rightarrow> 'a mat \<Rightarrow> bool" where
  "is_mat n k A = (length A = n \<and> list_all (\<lambda>r. length r = k) A)"

definition eye :: "nat \<Rightarrow> real mat" where
  "eye k = map (\<lambda>i. map (\<lambda>j. if i = j then 1 else 0) [0..<k]) [0..<k]"

definition diag :: "real vec \<Rightarrow> real mat" where
  "diag S = map (\<lambda>i. map (\<lambda>j. if i = j then S ! i else 0) [0..<length S]) [0..<length S]"

text \<open>
  \<open>np.linalg.svd(R, full_matrices=False)\<close> is numpy's, so it is a parameter \<open>svd\<close> of
  the model, which may raise. \<open>thin_svd n k R (U, S, Vt)\<close> is what numpy documents of
  its result for an \<open>(n, k)\<close> input, with \<open>m = min n k\<close>: \<open>U\<close> is \<open>(n, m)\<close> with
  orthonormal columns, \<open>Vt\<close> is \<open>(m, k)\<close> with orthonormal rows and unitary when square,
  \<open>S\<close> holds \<open>m\<close> non-negative values, and \<open>U @ diag(S) @ Vt = R\<close>.
\<close>

definition thin_svd :: "nat \<Rightarrow> nat \<Rightarrow> real mat \<Rightarrow> real mat \<times> real vec \<times> real mat \<Rightarrow> bool" where
  "thin_svd n k R usv =
     (case usv of (U, S, Vt) \<Rightarrow>
        is_mat n k R \<and> is_mat n (min n k) U \<and> is_mat (min n k) k Vt
      \<and> length S = min n k \<and> list_all (\<lambda>s. 0 \<le> s) S
      \<and> matmul (matmul U (diag S)) Vt = R
      \<and> matmul (mat_T U) U = eye (min n k)
      \<and> matmul Vt (mat_T Vt) = eye (min n k)
      \<and> (if min n k = k then matmul (mat_T Vt) Vt = eye k else True))"

definition svd_ok ::
  "nat \<Rightarrow> nat \<Rightarrow> (real mat \<Rightarrow> error + real mat \<times> real vec \<times> real mat) \<Rightarrow> real mat \<Rightarrow> bool" where
  "svd_ok n k svd R = (case svd R of Inl e \<Rightarrow> False | Inr usv \<Rightarrow> thin_svd n k R usv)"

text \<open>\<open>scores.sum(axis=0)\<close> of the stacked per-view scores (shape read off the first view).\<close>

definition stacked_sum :: "'a::monoid_add mat list \<Rightarrow> 'a mat" where
  "stacked_sum scores =
     (case scores of [] \<Rightarrow> [] | A # _ \<Rightarrow> sum_axis0 (length A) (ncols A) scores)"

text \<open>\<open>_AltMaxVarLoop._update_target\<close> (\<open>models/_iterative/_altmaxvar.py\<close>).\<close>

definition update_target ::
  "('a mat \<Rightarrow> error + 'a mat \<times> 'a vec \<times> 'a mat) \<Rightarrow> 'a::{monoid_add,times} altmaxvar_inner_loop
     \<Rightarrow> error + 'a altmaxvar_inner_loop" where
  "update_target svd st =
     (let R = stacked_sum (ail_scores st)
      in case svd R of
           Inl e \<Rightarrow> Inl e
         | Inr (U, S, Vt) \<Rightarrow> Inr (st\<lparr>ail_G := Some (matmul U Vt)\<rparr>))"

text \<open>
  \<open>AltMaxVarLoop._get_target\<close> (\<open>linear/_iterative/_altmaxvar.py\<close>): the aggregate is the
  mean score, mixed with the previous target once \<open>self.G\<close> exists.
\<close>

definition stacked_mean :: "real mat list \<Rightarrow> real mat" where
  "stacked_mean scores = map (map (\<lambda>x. x / real (length scores))) (stacked_sum scores)"

definition target_aggregate :: "real \<Rightarrow> real mat option \<Rightarrow> real mat list \<Rightarrow> real mat" where
  "target_aggregate gamma G scores =
     (case G of
        Some G0 \<Rightarrow> mat_add (mat_scale gamma (stacked_mean scores)) (mat_scale (1 - gamma) G0)
      | None \<Rightarrow> stacked_mean scores)"

definition get_target ::
  "(real mat \<Rightarrow> error + real mat \<times> real vec \<times> real mat) \<Rightarrow> real \<Rightarrow> real mat option
     \<Rightarrow> real mat list \<Rightarrow> error + real mat" where
  "get_target svd gamma G scores =
     (case svd (target_aggregate gamma G scores) of
        Inl e \<Rightarrow> Inl e
      | Inr (U, S, Vt) \<Rightarrow> Inr (matmul U Vt))"

text \<open>
  Two views of two rows with one latent dimension, and the thin SVD of their aggregates:
  \<open>[[4], [0]] = [[1], [0]] @ diag [4] @ [[1]]\<close> for the sum and
  \<open>[[2], [0]] = [[1], [0]] @ diag [2] @ [[1]]\<close> for the mean.
\<close>

definition target_example :: "real altmaxvar_inner_loop" where
  "target_example = \<lparr>ail_tol = 1 / 10 ^ 9, ail_scores = [[[1], [0]], [[3], [0]]],
     ail_weights = [[[1]], [[3]]], ail_G = None, ail_objective = []\<rparr>"

definition svd_example :: "real mat \<Rightarrow> error + real mat \<times> real vec \<times> real mat" where
  "svd_example R =
     (if R = [[4], [0]] then Inr ([[1], [0]], [4], [[1]])
      else if R = [[2], [0]] then Inr ([[1], [0]], [2], [[1]])
      else Inl LinAlgError)"

section \<open>The AltMaxVar inner iteration, \<open>models/_iterative/_altmaxvar.py\<close>\<close>









section \<open>The proximal-gradient sweep, \<open>linear/_iterative/_altmaxvar.py\<close>\<close>

text \<open>
  \<open>np.allclose(a, b)\<close> with numpy's default tolerances: every pair of entries satisfies
  \<open>|a - b| <= 1e-8 + 1e-5 * |b|\<close>.
\<close>

definition isclose :: "real \<Rightarrow> real \<Rightarrow> bool" where
  "isclose a b = (\<bar>a - b\<bar> \<le> 1 / 10 ^ 8 + 1 / 10 ^ 5 * \<bar>b\<bar>)"

definition allclose :: "real mat \<Rightarrow> real mat \<Rightarrow> bool" where
  "allclose A B = list_all2 (list_all2 isclose) A B"

text \<open>
  The state of \<open>AltMaxVarLoop\<close>. A numpy array is a mutable object and a Python name or
  list slot holds a reference to it, which \<open>training_step\<close> relies on: \<open>self.weights[i] -= ...\<close>
  updates the array object in place, \<open>self.weights[i] = prox(...)\<close> binds the slot to a new
  object, and \<open>prev_weights = self.weights[i]\<close> copies a reference, not the array. So the
  store is explicit: \<open>aml_heap\<close> lists the array objects, an address is an index into it,
  and \<open>aml_weights\<close> holds the address in each slot of \<open>self.weights\<close>.
\<close>

record altmaxvar_loop =
  aml_gamma :: real
  aml_T :: nat
  aml_learning_rate :: real
  aml_tracking :: bool
  aml_convergence_checking :: bool
  aml_G :: "real mat option"
  aml_heap :: "real mat list"
  aml_weights :: "nat list"

text \<open>The values of the weights, slot by slot.\<close>

definition loop_weights :: "altmaxvar_loop \<Rightarrow> real mat list" where
  "loop_weights st = map (\<lambda>a. aml_heap st ! a) (aml_weights st)"

text \<open>\<open>forward\<close>: \<open>[view @ weight for view, weight in zip(views, self.weights)]\<close>.\<close>

definition forward :: "altmaxvar_loop \<Rightarrow> real mat list \<Rightarrow> real mat list" where
  "forward st views = map2 matmul views (loop_weights st)"

text \<open>
  One pass of the body of the \<open>while\<close> loop up to the convergence test: the gradient step
  in place on the array of slot \<open>i\<close>, then the proximal map, whose result is a new array
  (pyproximal's operators build theirs with numpy expressions) bound to slot \<open>i\<close>. An
  entry \<open>None\<close> of \<open>prox_ops\<close> is a \<open>None\<close> that \<open>_proximal_operators\<close> returned.
\<close>

definition sub_step ::
  "(real mat \<Rightarrow> real \<Rightarrow> real mat) option list \<Rightarrow> real mat \<Rightarrow> nat \<Rightarrow> altmaxvar_loop
     \<Rightarrow> error + altmaxvar_loop" where
  "sub_step prox_ops view i st =
     (case py_get (aml_weights st) (int i) of
        Inl e \<Rightarrow> Inl e
      | Inr a \<Rightarrow>
     (case aml_G st of
        None \<Rightarrow> Inl (AttributeError ''G'')
      | Some G \<Rightarrow>
     (let w = aml_heap st ! a;
          heap1 = (aml_heap st)[a := mat_sub w (mat_scale (aml_learning_rate st)
                     (matmul (mat_T view) (mat_sub (matmul view w) G)))]
      in case py_get prox_ops (int i) of
        Inl e \<Rightarrow> Inl e
      | Inr None \<Rightarrow> Inl (AttributeError ''prox'')
      | Inr (Some prox) \<Rightarrow>
          Inr (st\<lparr>aml_heap := heap1 @ [prox (heap1 ! a) (aml_learning_rate st)],
                  aml_weights := (aml_weights st)[i := length heap1]\<rparr>))))"

text \<open>
  \<open>prev_weights is not None and np.allclose(self.weights[i], prev_weights)\<close>, with
  \<open>prev_weights\<close> an address or \<open>None\<close>.
\<close>

definition unchanged :: "altmaxvar_loop \<Rightarrow> nat \<Rightarrow> nat option \<Rightarrow> bool" where
  "unchanged st i prev_weights =
     (case prev_weights of
        None \<Rightarrow> False
      | Some p \<Rightarrow> allclose (aml_heap st ! (aml_weights st ! i)) (aml_heap st ! p))"

lemma sub_step_T: "sub_step prox_ops view i st = Inr st' \<Longrightarrow> aml_T st' = aml_T st"
  by (auto simp: sub_step_def Let_def split: sum.splits option.splits)

text \<open>
  The \<open>while t < self.T and not converged\<close> loop of one view, from the values of
  \<open>prev_weights\<close>, \<open>t\<close> and \<open>converged\<close> at its head; it returns the loop state and
  \<open>converged\<close>.
\<close>

function sub_loop ::
  "(real mat \<Rightarrow> real \<Rightarrow> real mat) option list \<Rightarrow> real mat \<Rightarrow> nat \<Rightarrow> altmaxvar_loop
     \<Rightarrow> nat option \<Rightarrow> nat \<Rightarrow> bool \<Rightarrow> error + (altmaxvar_loop \<times> bool)" where
  "sub_loop prox_ops view i st prev_weights t converged =
     (if t < aml_T st \<and> \<not> converged
      then (case sub_step prox_ops view i st of
              Inl e \<Rightarrow> Inl e
            | Inr st' \<Rightarrow>
                if unchanged st' i prev_weights then Inr (st', True)
                else sub_loop prox_ops view i st' (Some (aml_weights st' ! i)) (t + 1) converged)
      else Inr (st, converged))"
  by pat_completeness auto
termination
  by (relation "measure (\<lambda>(prox_ops, view, i, st, prev_weights, t, converged). aml_T st - t)")
     (auto simp: sub_step_T)

text \<open>
  The \<open>for i, view in enumerate(views)\<close> loop. \<open>t\<close> and \<open>prev_weights\<close> are set anew for
  every view; \<open>converged\<close> is set once, before the loop, and is carried from view to view.
\<close>

fun view_loop ::
  "(real mat \<Rightarrow> real \<Rightarrow> real mat) option list \<Rightarrow> real mat list \<Rightarrow> nat \<Rightarrow> altmaxvar_loop \<Rightarrow> bool
     \<Rightarrow> error + (altmaxvar_loop \<times> bool)" where
  "view_loop prox_ops [] i st converged = Inr (st, converged)"
| "view_loop prox_ops (view # views) i st converged =
     (case sub_loop prox_ops view i st None 0 converged of
        Inl e \<Rightarrow> Inl e
      | Inr (st', converged') \<Rightarrow> view_loop prox_ops views (i + 1) st' converged')"

text \<open>
  \<open>training_step\<close>. Its last statement calls \<open>self.objective(batch["views"])\<close> when
  tracking or convergence checking is on; \<open>objective\<close> takes three arguments, so that
  call raises \<open>TypeError\<close>.
\<close>

definition training_step ::
  "(real mat \<Rightarrow> error + real mat \<times> real vec \<times> real mat) \<Rightarrow> (real mat \<Rightarrow> real \<Rightarrow> real mat) option list
     \<Rightarrow> real mat list \<Rightarrow> altmaxvar_loop \<Rightarrow> error + altmaxvar_loop" where
  "training_step svd prox_ops views st =
     (case np_stack (forward st views) of
        Inl e \<Rightarrow> Inl e
      | Inr scores \<Rightarrow>
     (case get_target svd (aml_gamma st) (aml_G st) scores of
        Inl e \<Rightarrow> Inl e
      | Inr G \<Rightarrow>
     (case view_loop prox_ops views 0 (st\<lparr>aml_G := Some G\<rparr>) False of
        Inl e \<Rightarrow> Inl e
      | Inr (st', converged) \<Rightarrow>
          if aml_tracking st' \<or> aml_convergence_checking st' then Inl TypeError
          else Inr st')))"

text \<open>
  The proximal map of pyproximal's \<open>L1(sigma)\<close>, soft thresholding by \<open>tau * sigma\<close>;
  \<open>AltMaxVar\<close> builds it with \<open>sigma = tau = 0\<close> by default.
\<close>

definition soft_threshold :: "real \<Rightarrow> real \<Rightarrow> real" where
  "soft_threshold thresh x =
     (if thresh < x then x - thresh else if x < - thresh then x + thresh else 0)"

definition l1_prox :: "real \<Rightarrow> real mat \<Rightarrow> real \<Rightarrow> real mat" where
  "l1_prox sigma w tau = map (map (soft_threshold (tau * sigma))) w"

text \<open>
  Two views of two rows and one feature. View 0 starts at the weight 1, a fixed point of
  its gradient step for the target \<open>[[1], [0]]\<close>; view 1 starts at the weight 3.
\<close>

definition sweep_views :: "real mat list" where
  "sweep_views = [[[1], [0]], [[1], [0]]]"

definition sweep_state :: "real mat option \<Rightarrow> real mat list \<Rightarrow> nat list \<Rightarrow> altmaxvar_loop" where
  "sweep_state G heap ws = \<lparr>aml_gamma = 1 / 10, aml_T = 100, aml_learning_rate = 1 / 10,
     aml_tracking = False, aml_convergence_checking = False, aml_G = G,
     aml_heap = heap, aml_weights = ws\<rparr>"

definition sweep_loop :: altmaxvar_loop where
  "sweep_loop = sweep_state None [[[1]], [[3]]] [0, 1]"

definition sweep_prox :: "(real mat \<Rightarrow> real \<Rightarrow> real mat) option list" where
  "sweep_prox = [Some (l1_prox 0), Some (l1_prox 0)]"

section \<open>Properties of Python indexing\<close>

lemma py_get_nat: "i < length xs \<Longrightarrow> py_get xs (int i) = Inr (xs ! i)"
  by (simp add: py_get_def)

lemma py_get_pred:
  assumes "i < length xs"
  shows "py_get xs (int i - 1) = Inr (xs ! ((i + length xs - 1) mod length xs))"
proof (cases i)
  case 0
  with assms have "length xs > 0" by simp
  then have "(length xs - 1) mod length xs = length xs - 1" by simp
  moreover have "nat (int (length xs) + (-1)) = length xs - 1" by simp
  ultimately show ?thesis using 0 assms by (simp add: py_get_def Let_def)
next
  case (Suc k)
  then have "(i + length xs - 1) mod length xs = k" using assms by simp
  then show ?thesis using Suc assms by (simp add: py_get_def Let_def)
qed

section \<open>A square root\<close>


section \<open>Properties of the elastic inner loop\<close>

subsection \<open>Finite arrays compute as reals\<close>











subsection \<open>The rescaling\<close>











subsection \<open>The SUMCOR update\<close>






text \<open>
  Claim C10. With \<open>maxvar = False\<close> the regression target of view \<open>i\<close> is the one score
  \<open>scores[i - 1]\<close> under Python's index wrap-around, that is the score of view
  \<open>(i + N - 1) mod N\<close>; for view 0 it is the last view's score. The solver is called with
  exactly that vector: replacing its target argument by that score changes nothing, so no
  other view's score enters the regression.
\<close>

theorem sumcor_target_is_cyclic_predecessor:
  assumes "\<not> el_maxvar st" and "i < length (el_scores st)"
  shows "regression_target st i =
           Inr (el_scores st ! ((i + length (el_scores st) - 1) mod length (el_scores st)))
       \<and> regression_target st 0 = Inr (last (el_scores st))
       \<and> update_view solver views i st =
           update_view (\<lambda>j X y. solver j X
             (el_scores st ! ((i + length (el_scores st) - 1) mod length (el_scores st)))) views i st"
proof -
  let ?N = "length (el_scores st)"
  have t: "regression_target st i = Inr (el_scores st ! ((i + ?N - 1) mod ?N))"
    using assms by (simp add: regression_target_def py_get_pred)
  have pos: "0 < ?N" using assms(2) by (cases "el_scores st") simp_all
  have "regression_target st 0 = Inr (el_scores st ! ((0 + ?N - 1) mod ?N))"
    using assms(1) pos by (simp add: regression_target_def py_get_pred[of 0, simplified])
  moreover have "el_scores st ! ((0 + ?N - 1) mod ?N) = last (el_scores st)"
    using pos by (cases "el_scores st" rule: rev_cases) simp_all
  ultimately have z: "regression_target st 0 = Inr (last (el_scores st))" by simp
  have u: "update_view solver views i st =
           update_view (\<lambda>j X y. solver j X (el_scores st ! ((i + ?N - 1) mod ?N))) views i st"
    by (simp add: update_view_def t)
  from t z u show ?thesis by blast
qed

theorem sumcor_target_is_cyclic_predecessor_witness:
  "regression_target sumcor_example 0 = Inr (el_scores sumcor_example ! 1)
   \<and> regression_target sumcor_example 1 = Inr (el_scores sumcor_example ! 0)"
proof -
  have h: "\<not> el_maxvar sumcor_example" "0 < length (el_scores sumcor_example)"
    "1 < length (el_scores sumcor_example)"
    by (simp_all add: sumcor_example_def)
  show ?thesis
    using sumcor_target_is_cyclic_predecessor[OF h(1) h(2)]
      sumcor_target_is_cyclic_predecessor[OF h(1) h(3)]
    by (simp add: sumcor_example_def)
qed

section \<open>Properties of early stopping\<close>

lemma py_get_last2:
  "py_get (xs @ [a, b]) (- 2) = Inr a" "py_get (xs @ [a, b]) (- 1) = Inr b"
proof -
  have "nat (int (length xs) + 2 + (- 2)) = length xs" by simp
  then show "py_get (xs @ [a, b]) (- 2) = Inr a"
    by (simp add: py_get_def Let_def nth_append)
  have "nat (int (length xs) + 2 + (- 1)) = Suc (length xs)" by simp
  then show "py_get (xs @ [a, b]) (- 1) = Inr b"
    by (simp add: py_get_def Let_def nth_append)
qed

text \<open>
  The elastic loop stops exactly when the absolute difference of the last two objective
  values is below its \<open>tol\<close>.
\<close>

lemma elastic_early_stop_iff:
  "elastic_early_stop tol (tr @ [a, b]) = Inr (\<bar>a - b\<bar> < tol)"
  by (simp add: elastic_early_stop_def py_get_last2)

text \<open>
  The AltMaxVar loop stops exactly when the signed decrease is below \<open>1e-9\<close>, whatever
  tolerance the loop was built with.
\<close>

lemma altmaxvar_early_stop_iff:
  "ail_objective st = tr @ [a, b] \<Longrightarrow> altmaxvar_early_stop st = Inr (a - b < 1 / 10 ^ 9)"
  by (simp add: altmaxvar_early_stop_def py_get_last2)

lemma altmaxvar_early_stop_ignores_tol:
  "altmaxvar_early_stop (st\<lparr>ail_tol := t\<rparr>) = altmaxvar_early_stop st"
  by (simp add: altmaxvar_early_stop_def cong: sum.case_cong)

text \<open>
  Claim C6, at a failing input. With the caller's \<open>tol = 1e-3\<close> and an objective that fell
  from 1 to 0.9995, the signed decrease 0.0005 is below \<open>tol\<close>, yet
  \<open>_AltMaxVarLoop._early_stop\<close> answers \<open>False\<close>: it compares with the literal \<open>1e-9\<close>.
  The elastic loop, on the same trace and tolerance, answers \<open>True\<close>.
\<close>

theorem altmaxvar_early_stop_hard_coded:
  "altmaxvar_early_stop slow_descent = Inr False
   \<and> 1 - 9995 / 10000 < ail_tol slow_descent
   \<and> elastic_early_stop (ail_tol slow_descent) (ail_objective slow_descent) = Inr True"
  by (simp add: altmaxvar_early_stop_def elastic_early_stop_def slow_descent_def py_get_def)

section \<open>Properties of \<open>transform\<close>\<close>

lemma py_get_error: "py_get xs i = Inl e \<Longrightarrow> e = IndexError"
  by (auto simp: py_get_def Let_def split: if_splits)

lemma transform_loop_not_NotFitted: "transform_loop est vs \<noteq> Inl NotFittedError"
proof (induction vs)
  case Nil
  then show ?case by simp
next
  case (Cons a vs)
  obtain view view_index where a: "a = (view, view_index)" by (cases a)
  show ?case unfolding a using Cons.IH
    by (auto split: option.splits sum.splits dest: py_get_error)
qed

text \<open>\<open>_CCA_Base.transform\<close> has no path that raises \<open>NotFittedError\<close>.\<close>

lemma transform_never_NotFitted: "transform est views vi \<noteq> Inl NotFittedError"
  by (simp add: transform_def transform_loop_not_NotFitted)

lemma transform_unfitted_raises_AttributeError:
  "views \<noteq> [] \<Longrightarrow>
   transform (cca_base_init k) views None = Inl (AttributeError ''view_means'')"
  by (cases views) (simp_all add: transform_def cca_base_init_def upt_rec)

text \<open>
  After a fit (means and weights stored for every view), \<open>transform\<close> centres each view
  with its stored mean and multiplies by its stored weights.
\<close>

lemma transform_loop_fitted:
  assumes "cb_view_means est = Some means" and "cb_weights_list est = Some ws"
    and "k + length views \<le> length means" and "k + length views \<le> length ws"
  shows "transform_loop est (zip views (map int [k..<k + length views])) =
         Inr (map (\<lambda>(view, i). matmul (sub_rows view (means ! i)) (ws ! i))
                (zip views [k..<k + length views]))"
  using assms(3-)
proof (induction views arbitrary: k)
  case Nil
  then show ?case by simp
next
  case (Cons v views)
  have eq: "[k..<k + length (v # views)] = k # [Suc k..<Suc k + length views]"
    by (simp add: upt_rec)
  have ih: "transform_loop est (zip views (map int [Suc k..<Suc k + length views])) =
         Inr (map (\<lambda>(view, i). matmul (sub_rows view (means ! i)) (ws ! i))
                (zip views [Suc k..<Suc k + length views]))"
    using Cons.prems by (intro Cons.IH) simp_all
  have "k < length means" "k < length ws" using Cons.prems by simp_all
  then show ?case unfolding eq
    using assms(1,2) ih by (simp add: py_get_nat)
qed

lemma transform_fitted:
  assumes "cb_view_means est = Some means" and "cb_weights_list est = Some ws"
    and "length views \<le> length means" and "length views \<le> length ws"
  shows "transform est views None =
         Inr (map (\<lambda>(view, i). matmul (sub_rows view (means ! i)) (ws ! i))
                (zip views [0..<length views]))"
  using transform_loop_fitted[OF assms(1,2), of 0 views] assms(3,4)
  by (simp add: transform_def)

lemma kcca_transform_unfitted:
  "kc_weights est = None \<Longrightarrow> kcca_transform prepare get_kernel est views = Inl NotFittedError"
  by (simp add: kcca_transform_def)

text \<open>
  Claim C9, at a failing input. An estimator of \<open>_CCA_Base\<close> as its constructor leaves it:
  \<open>transform\<close> of one view raises \<open>AttributeError\<close> (\<open>view_means\<close> does not exist), and
  \<open>transform\<close> of no views returns the empty list; neither is \<open>NotFittedError\<close>, which no
  input makes this method raise. \<open>KCCA.transform\<close> on an unfitted estimator does raise
  \<open>NotFittedError\<close>.
\<close>

theorem transform_before_fit:
  "transform (cca_base_init 1) [[[1, 2], [3, 4]]] None = Inl (AttributeError ''view_means'')
   \<and> transform (cca_base_init 1) [] None = Inr []
   \<and> (\<forall>est views vi. transform est views vi \<noteq> Inl NotFittedError)
   \<and> (\<forall>prepare get_kernel views.
        kcca_transform prepare get_kernel \<lparr>kc_weights = None, kc_train_views = []\<rparr> views
          = Inl NotFittedError)"
  by (simp add: transform_never_NotFitted kcca_transform_unfitted)
     (simp add: transform_def cca_base_init_def)

section \<open>Properties of the proximal-operator registry\<close>

text \<open>A string that is not a key of the registry yields \<open>None\<close>, and no error.\<close>

lemma proximal_operators_unknown_tag:
  "name \<notin> set PROXIMAL_OPERATORS \<Longrightarrow>
   proximal_operators make_operator (Tag name) filter_params params = Inr None"
  by (simp add: proximal_operators_def)

text \<open>
  \<open>EuclideanBall\<close> is registered and has no entry in \<open>PROXIMAL_PARAMS\<close>: filtering any
  keyword argument for it raises \<open>KeyError\<close>.
\<close>

lemma proximal_operators_EuclideanBall:
  "proximal_operators make_operator (Tag ''EuclideanBall'') True [(''sigma'', PReal 0)]
     = Inl KeyError"
  by (simp add: proximal_operators_def PROXIMAL_OPERATORS_def PROXIMAL_PARAMS_def)

text \<open>
  Claim C7, at failing inputs. The kind \<open>"TV"\<close> (listed in \<open>PROXIMAL_PARAMS\<close>, not
  registered in \<open>PROXIMAL_OPERATORS\<close>) with the keyword arguments \<open>_get_proximal\<close> passes,
  the misspelt kind \<open>"l1"\<close>, and an object that is neither a string nor callable: each
  call returns \<open>None\<close> and raises nothing, whatever the constructors do.
\<close>

theorem proximal_operators_unknown_kind_yields_None:
  "proximal_operators make_operator (Tag ''TV'') True
       [(''sigma'', PReal 0), (''positive'', PBool False)] = Inr None
   \<and> proximal_operators make_operator (Tag ''l1'') True [] = Inr None
   \<and> proximal_operators make_operator NotCallable True [(''sigma'', PReal 0)] = Inr None"
  by (simp add: proximal_operators_def PROXIMAL_OPERATORS_def)

section \<open>Properties of the initialization\<close>

lemma random_scores_shape:
  "map shape (random_scores rs views) = map (\<lambda>view. [length view]) views"
  by (induction views arbitrary: rs) (simp_all add: normal_def)

text \<open>
  Scheme \<open>"random"\<close> returns, for every view, a one-dimensional array of \<open>n\<close> samples;
  \<open>latent_dims\<close> does not enter.
\<close>

lemma initialization_random_shape:
  "\<exists>out. initialization f views ''random'' rs k = Inr out
       \<and> map shape out = map (\<lambda>view. [length view]) views"
  by (simp add: initialization_def random_scores_shape)

lemma shape_np_ones: "0 < n \<Longrightarrow> shape (Arr2 (np_ones n k)) = [n, k]"
  by (cases n) (simp_all add: np_ones_def ncols_def)

lemma initialization_uniform_shape:
  "0 < n \<Longrightarrow> list_all (\<lambda>view. length view = n) views \<Longrightarrow>
   \<exists>out. initialization f views ''uniform'' rs k = Inr out
       \<and> map shape out = map (\<lambda>view. [n, k]) views"
  by (simp add: initialization_def list_all_iff shape_np_ones del: shape.simps)

lemma initialization_unknown_message:
  "init \<notin> {''random'', ''uniform'', ''pls'', ''cca''} \<Longrightarrow>
   initialization f views init rs k = Inl (ValueError
        ''Initialization {type} not supported. Pass a generator implementing this method'')"
  by (simp add: initialization_def)

text \<open>
  Claim C8, at a failing input: two views of three rows and \<open>latent_dims = 2\<close>. Scheme
  \<open>"random"\<close> returns per-view arrays of shape \<open>(3,)\<close>, where \<open>"uniform"\<close> returns
  \<open>(3, 2)\<close>. The unknown schemes \<open>"kmeans"\<close> and \<open>"spectral"\<close> raise the same
  \<open>ValueError\<close>, whose message holds the text \<open>{type}\<close> and not the scheme's name.
\<close>

theorem initialization_random_is_one_dimensional:
  "(\<exists>out. initialization f [three_by_two, three_by_two] ''random'' rs 2 = Inr out
        \<and> map shape out = [[3], [3]])
   \<and> (\<exists>out. initialization f [three_by_two, three_by_two] ''uniform'' rs 2 = Inr out
        \<and> map shape out = [[3, 2], [3, 2]])
   \<and> initialization f [three_by_two, three_by_two] ''kmeans'' rs 2
       = initialization f [three_by_two, three_by_two] ''spectral'' rs 2
   \<and> initialization f [three_by_two, three_by_two] ''kmeans'' rs 2 = Inl (ValueError
        ''Initialization {type} not supported. Pass a generator implementing this method'')"
  by (simp add: initialization_def three_by_two_def normal_def np_ones_def ncols_def)

section \<open>Properties of the PMD weight update\<close>

lemma set_t_fields [simp]:
  "pmd_tau (set_t st) = pmd_tau st" "pmd_positive (set_t st) = pmd_positive st"
  "pmd_tol (set_t st) = pmd_tol st" "pmd_weights (set_t st) = pmd_weights st"
  by (simp_all add: set_t_def Let_def split: option.splits)

lemma pmd_transform_set_t [simp]: "pmd_transform (set_t st) views = pmd_transform st views"
  by (simp add: pmd_transform_def)



lemma pmd_transform_t_update [simp]:
  "pmd_transform (st\<lparr>pmd_t := t\<rparr>) views = pmd_transform st views"
  by (simp add: pmd_transform_def)












section \<open>Properties of the consensus target\<close>

lemma is_mat_length: "is_mat n k A \<Longrightarrow> length A = n"
  by (simp add: is_mat_def)

lemma is_mat_row: "is_mat n k A \<Longrightarrow> i < n \<Longrightarrow> length (A ! i) = k"
  by (auto simp: is_mat_def list_all_length)

lemma is_mat_ncols: "is_mat n k A \<Longrightarrow> 0 < n \<Longrightarrow> ncols A = k"
  by (cases A) (auto simp: is_mat_def ncols_def)

lemma dot_sum:
  fixes xs ys :: "real list"
  shows "length xs = length ys \<Longrightarrow> dot xs ys = (\<Sum>c<length xs. xs ! c * ys ! c)"
proof -
  assume l: "length xs = length ys"
  have "dot xs ys = (\<Sum>c = 0..<length (map2 (*) xs ys). map2 (*) xs ys ! c)"
    unfolding dot_def by (rule sum_list_sum_nth)
  also have "\<dots> = (\<Sum>c = 0..<length xs. xs ! c * ys ! c)"
    using l by (intro sum.cong) simp_all
  finally show ?thesis by (simp add: lessThan_atLeast0)
qed

lemma matmul_nth:
  fixes A B :: "real mat"
  assumes "is_mat n m A" "is_mat m k B" "0 < m" "i < n" "j < k"
  shows "matmul A B ! i ! j = (\<Sum>c<m. A ! i ! c * B ! c ! j)"
proof -
  have nc: "ncols B = k" using assms(2,3) by (rule is_mat_ncols)
  have la: "length (A ! i) = m" using assms(1,4) by (rule is_mat_row)
  have lb: "length B = m" using assms(2) by (rule is_mat_length)
  have "matmul A B ! i ! j = dot (A ! i) (col B j)"
    using assms(4,5) is_mat_length[OF assms(1)] nc by (simp add: matmul_def)
  also have "\<dots> = (\<Sum>c<m. A ! i ! c * col B j ! c)"
    using dot_sum[of "A ! i" "col B j"] la lb by (simp add: col_def)
  also have "\<dots> = (\<Sum>c<m. A ! i ! c * B ! c ! j)"
    using lb by (intro sum.cong) (simp_all add: col_def)
  finally show ?thesis .
qed

lemma is_mat_matmul:
  fixes A B :: "real mat"
  assumes "is_mat n m A" "is_mat m k B" "0 < m"
  shows "is_mat n k (matmul A B)"
  using assms is_mat_ncols[OF assms(2,3)]
  by (simp add: is_mat_def matmul_def list_all_iff)

lemma is_mat_T: "is_mat n k A \<Longrightarrow> 0 < n \<Longrightarrow> is_mat k n (mat_T A)"
  by (simp add: is_mat_def mat_T_def is_mat_ncols list_all_iff col_def)

lemma mat_T_nth: "is_mat n k A \<Longrightarrow> 0 < n \<Longrightarrow> j < k \<Longrightarrow> i < n \<Longrightarrow> mat_T A ! j ! i = A ! i ! j"
  by (simp add: mat_T_def is_mat_ncols col_def is_mat_length)

lemma gram_nth:
  fixes A :: "real mat"
  assumes "is_mat n k A" "0 < n" "a < k" "b < k"
  shows "matmul (mat_T A) A ! a ! b = (\<Sum>i<n. A ! i ! a * A ! i ! b)"
proof -
  have "matmul (mat_T A) A ! a ! b = (\<Sum>i<n. mat_T A ! a ! i * A ! i ! b)"
    using is_mat_T[OF assms(1,2)] assms by (intro matmul_nth) auto
  also have "\<dots> = (\<Sum>i<n. A ! i ! a * A ! i ! b)"
    using assms by (intro sum.cong) (simp_all add: mat_T_nth)
  finally show ?thesis .
qed

lemma eye_nth: "a < k \<Longrightarrow> b < k \<Longrightarrow> eye k ! a ! b = (if a = b then 1 else 0)"
  by (simp add: eye_def)

lemma is_mat_eye: "is_mat k k (eye k)"
  by (simp add: is_mat_def eye_def list_all_iff)

lemma mat_eqI:
  assumes "is_mat n k A" "is_mat n k B"
    and "\<And>i j. i < n \<Longrightarrow> j < k \<Longrightarrow> A ! i ! j = B ! i ! j"
  shows "A = B"
proof (rule nth_equalityI)
  show "length A = length B" using assms(1,2) by (simp add: is_mat_def)
next
  fix i assume "i < length A"
  then have i: "i < n" using assms(1) by (simp add: is_mat_def)
  show "A ! i = B ! i"
  proof (rule nth_equalityI)
    show "length (A ! i) = length (B ! i)"
      using is_mat_row[OF assms(1) i] is_mat_row[OF assms(2) i] by simp
  next
    fix j assume "j < length (A ! i)"
    then have "j < k" using is_mat_row[OF assms(1) i] by simp
    then show "A ! i ! j = B ! i ! j" using assms(3) i by simp
  qed
qed

lemma orthonormal_product:
  fixes U Vt :: "real mat"
  assumes U: "is_mat n k U" and V: "is_mat k k Vt"
    and UU: "matmul (mat_T U) U = eye k"
    and VV: "matmul (mat_T Vt) Vt = eye k"
    and kn: "k \<le> n"
  shows "matmul (mat_T (matmul U Vt)) (matmul U Vt) = eye k"
proof (cases "k = 0")
  case True
  then have "ncols (matmul U Vt) = 0"
    using V by (cases U) (simp_all add: ncols_def matmul_def is_mat_def)
  then show ?thesis using True by (simp add: mat_T_def matmul_def eye_def)
next
  case False
  then have k: "0 < k" and n: "0 < n" using kn by simp_all
  let ?G = "matmul U Vt"
  have G: "is_mat n k ?G" using U V k by (rule is_mat_matmul)
  have Gnth: "?G ! i ! a = (\<Sum>c<k. U ! i ! c * Vt ! c ! a)" if "i < n" "a < k" for i a
    using U V k that by (rule matmul_nth)
  have Ugram: "(\<Sum>i<n. U ! i ! c * U ! i ! d) = (if c = d then 1 else 0)"
    if "c < k" "d < k" for c d
    using gram_nth[OF U n that] eye_nth[OF that] UU by simp
  have Vgram: "(\<Sum>c<k. Vt ! c ! a * Vt ! c ! b) = (if a = b then 1 else 0)"
    if "a < k" "b < k" for a b
    using gram_nth[OF V k that] eye_nth[OF that] VV by simp
  show ?thesis
  proof (rule mat_eqI[of k k])
    show "is_mat k k (matmul (mat_T ?G) ?G)"
      using is_mat_T[OF G n] G n by (rule is_mat_matmul)
    show "is_mat k k (eye k)" by (rule is_mat_eye)
  next
    fix a b assume a: "a < k" and b: "b < k"
    have "matmul (mat_T ?G) ?G ! a ! b = (\<Sum>i<n. ?G ! i ! a * ?G ! i ! b)"
      using G n a b by (rule gram_nth)
    also have "\<dots> = (\<Sum>i<n. (\<Sum>c<k. U ! i ! c * Vt ! c ! a) * (\<Sum>d<k. U ! i ! d * Vt ! d ! b))"
      using a b by (intro sum.cong) (simp_all add: Gnth)
    also have "\<dots> = (\<Sum>i<n. \<Sum>c<k. \<Sum>d<k. (Vt ! c ! a * Vt ! d ! b) * (U ! i ! c * U ! i ! d))"
      by (simp add: sum_product mult_ac)
    also have "\<dots> = (\<Sum>c<k. \<Sum>i<n. \<Sum>d<k. (Vt ! c ! a * Vt ! d ! b) * (U ! i ! c * U ! i ! d))"
      by (rule sum.swap)
    also have "\<dots> = (\<Sum>c<k. \<Sum>d<k. \<Sum>i<n. (Vt ! c ! a * Vt ! d ! b) * (U ! i ! c * U ! i ! d))"
      by (intro sum.cong refl sum.swap)
    also have "\<dots> = (\<Sum>c<k. \<Sum>d<k. (Vt ! c ! a * Vt ! d ! b) * (\<Sum>i<n. U ! i ! c * U ! i ! d))"
      by (simp add: sum_distrib_left)
    also have "\<dots> = (\<Sum>c<k. \<Sum>d<k. (Vt ! c ! a * Vt ! d ! b) * (if c = d then 1 else 0))"
      by (intro sum.cong refl) (simp add: Ugram)
    also have "\<dots> = (\<Sum>c<k. Vt ! c ! a * Vt ! c ! b)"
    proof (intro sum.cong refl)
      fix c assume "c \<in> {..<k}"
      then have c: "c \<in> {..<k}" .
      have "(\<Sum>d<k. (Vt ! c ! a * Vt ! d ! b) * (if c = d then 1 else 0)) =
            (\<Sum>d<k. if c = d then Vt ! c ! a * Vt ! d ! b else 0)"
        by (intro sum.cong refl) simp
      also have "\<dots> = Vt ! c ! a * Vt ! c ! b"
        using c by (simp add: sum.delta')
      finally show "(\<Sum>d<k. (Vt ! c ! a * Vt ! d ! b) * (if c = d then 1 else 0)) =
            Vt ! c ! a * Vt ! c ! b" .
    qed
    also have "\<dots> = (if a = b then 1 else 0)" using a b by (rule Vgram)
    also have "\<dots> = eye k ! a ! b" using a b by (simp add: eye_nth)
    finally show "matmul (mat_T ?G) ?G ! a ! b = eye k ! a ! b" .
  qed
qed


lemma thin_svd_target:
  assumes "thin_svd n k R (U, S, Vt)" and "k \<le> n"
  shows "is_mat n k (matmul U Vt) \<and> matmul (mat_T (matmul U Vt)) (matmul U Vt) = eye k"
proof -
  from assms have m: "min n k = k" by simp
  from assms(1) have U: "is_mat n k U" and V: "is_mat k k Vt"
    and UU: "matmul (mat_T U) U = eye k" and VV: "matmul (mat_T Vt) Vt = eye k"
    by (simp_all add: thin_svd_def m)
  have "is_mat n k (matmul U Vt)"
  proof (cases "k = 0")
    case True
    then show ?thesis using U V by (simp add: is_mat_def matmul_def ncols_def list_all_iff)
  next
    case False
    then show ?thesis using is_mat_matmul[OF U V] by simp
  qed
  moreover have "matmul (mat_T (matmul U Vt)) (matmul U Vt) = eye k"
    using U V UU VV assms(2) by (rule orthonormal_product)
  ultimately show ?thesis by simp
qed

text \<open>
  Claim C3. Let \<open>k\<close> latent dimensions and \<open>n \<ge> k\<close> rows. Whenever numpy's thin SVD of
  the score aggregate returns what it documents (\<open>svd_ok\<close>: the aggregate is \<open>(n, k)\<close>,
  \<open>U\<close> has orthonormal columns and \<open>Vt\<close> is unitary), the recomputed target
  \<open>G = U @ Vt\<close> is \<open>(n, k)\<close> with \<open>G.T @ G = I\<close>. This holds for
  \<open>_AltMaxVarLoop._update_target\<close> (aggregate: the sum of the scores) at any state of the
  loop, hence at every outer iteration, and for \<open>AltMaxVarLoop._get_target\<close> (aggregate:
  the mean, mixed with the previous target once there is one). Arithmetic is exact: the
  rounding of floating-point numbers is outside the model.
\<close>

theorem consensus_target_orthonormal:
  assumes "k \<le> n"
  shows "(svd_ok n k svd (stacked_sum (ail_scores st)) \<longrightarrow>
            (\<exists>G. update_target svd st = Inr (st\<lparr>ail_G := Some G\<rparr>)
                \<and> is_mat n k G \<and> matmul (mat_T G) G = eye k))
       \<and> (svd_ok n k svd (target_aggregate gamma G0 scores) \<longrightarrow>
            (\<exists>G. get_target svd gamma G0 scores = Inr G
                \<and> is_mat n k G \<and> matmul (mat_T G) G = eye k))"
proof (intro conjI impI)
  assume ok: "svd_ok n k svd (stacked_sum (ail_scores st))"
  then obtain U S Vt where r: "svd (stacked_sum (ail_scores st)) = Inr (U, S, Vt)"
    and t: "thin_svd n k (stacked_sum (ail_scores st)) (U, S, Vt)"
    by (auto simp: svd_ok_def split: sum.splits)
  have "update_target svd st = Inr (st\<lparr>ail_G := Some (matmul U Vt)\<rparr>)"
    by (simp add: update_target_def r)
  with thin_svd_target[OF t assms]
  show "\<exists>G. update_target svd st = Inr (st\<lparr>ail_G := Some G\<rparr>)
           \<and> is_mat n k G \<and> matmul (mat_T G) G = eye k"
    by blast
next
  assume ok: "svd_ok n k svd (target_aggregate gamma G0 scores)"
  then obtain U S Vt where r: "svd (target_aggregate gamma G0 scores) = Inr (U, S, Vt)"
    and t: "thin_svd n k (target_aggregate gamma G0 scores) (U, S, Vt)"
    by (auto simp: svd_ok_def split: sum.splits)
  have "get_target svd gamma G0 scores = Inr (matmul U Vt)"
    by (simp add: get_target_def r)
  with thin_svd_target[OF t assms]
  show "\<exists>G. get_target svd gamma G0 scores = Inr G
           \<and> is_mat n k G \<and> matmul (mat_T G) G = eye k"
    by blast
qed

lemma svd_example_sum: "svd_ok 2 1 svd_example (stacked_sum (ail_scores target_example))"
  by (simp add: svd_ok_def svd_example_def stacked_sum_def sum_axis0_def target_example_def
      thin_svd_def is_mat_def matmul_def mat_T_def col_def ncols_def dot_def diag_def eye_def)

lemma svd_example_mean:
  "svd_ok 2 1 svd_example (target_aggregate (1 / 10) None (ail_scores target_example))"
  by (simp add: svd_ok_def svd_example_def target_aggregate_def stacked_mean_def stacked_sum_def
      sum_axis0_def target_example_def
      thin_svd_def is_mat_def matmul_def mat_T_def col_def ncols_def dot_def diag_def eye_def)

theorem consensus_target_orthonormal_witness:
  "(\<exists>G. update_target svd_example target_example = Inr (target_example\<lparr>ail_G := Some G\<rparr>)
       \<and> is_mat 2 1 G \<and> matmul (mat_T G) G = eye 1)
   \<and> (\<exists>G. get_target svd_example (1 / 10) None (ail_scores target_example) = Inr G
       \<and> is_mat 2 1 G \<and> matmul (mat_T G) G = eye 1)"
proof -
  have le: "(1::nat) \<le> 2" by simp
  show ?thesis
    using consensus_target_orthonormal[OF le, of svd_example target_example "1 / 10" None
        "ail_scores target_example"] svd_example_sum svd_example_mean
    by blast
qed

section \<open>Degenerate updates\<close>

subsection \<open>\<open>nan\<close> in the scores reaches the SVD\<close>






subsection \<open>The elastic update in its two modes\<close>












section \<open>Properties of the proximal-gradient sweep\<close>

declare sub_loop.simps [simp del]

text \<open>
  With \<open>converged\<close> already set at its head, the loop of a view makes no sub-step, and
  so does every later view of the sweep.
\<close>

lemma sub_loop_converged:
  "sub_loop prox_ops view i st prev_weights t True = Inr (st, True)"
  by (simp add: sub_loop.simps)

lemma view_loop_converged: "view_loop prox_ops views i st True = Inr (st, True)"
  by (induction views arbitrary: i) (simp_all add: sub_loop_converged)

lemma sweep_target:
  "get_target svd_example (1 / 10) None (forward sweep_loop sweep_views) = Inr [[1], [0]]"
  by (simp add: get_target_def target_aggregate_def stacked_mean_def stacked_sum_def
      sum_axis0_def forward_def loop_weights_def sweep_loop_def sweep_state_def sweep_views_def svd_example_def
      matmul_def ncols_def col_def dot_def)

lemma sweep_stack:
  "np_stack (forward sweep_loop sweep_views) = Inr (forward sweep_loop sweep_views)"
  by (simp add: np_stack_def forward_def loop_weights_def sweep_loop_def sweep_state_def sweep_views_def
      matmul_def ncols_def)


lemmas sweep_eval = sub_step_def sweep_state_def sweep_prox_def py_get_def Let_def
  matmul_def mat_T_def mat_sub_def mat_scale_def ncols_def col_def dot_def
  l1_prox_def soft_threshold_def

lemma sweep_step_1:
  "sub_step sweep_prox [[1], [0]] 0 (sweep_state (Some [[1], [0]]) [[[1]], [[3]]] [0, 1]) =
     Inr (sweep_state (Some [[1], [0]]) [[[1]], [[3]], [[1]]] [2, 1])"
  by (simp add: sweep_eval)

lemma sweep_step_2:
  "sub_step sweep_prox [[1], [0]] 0 (sweep_state (Some [[1], [0]]) [[[1]], [[3]], [[1]]] [2, 1]) =
     Inr (sweep_state (Some [[1], [0]]) [[[1]], [[3]], [[1]], [[1]]] [3, 1])"
  by (simp add: sweep_eval)

lemma sweep_unchanged_2:
  "unchanged (sweep_state (Some [[1], [0]]) [[[1]], [[3]], [[1]], [[1]]] [3, 1]) 0 (Some 2)"
  by (simp add: unchanged_def allclose_def isclose_def sweep_state_def)

lemma sweep_sub_loop_view0:
  "sub_loop sweep_prox [[1], [0]] 0 (sweep_state (Some [[1], [0]]) [[[1]], [[3]]] [0, 1])
       None 0 False =
     Inr (sweep_state (Some [[1], [0]]) [[[1]], [[3]], [[1]], [[1]]] [3, 1], True)"
proof -
  have T: "aml_T (sweep_state G h ws) = 100" for G h ws by (simp add: sweep_state_def)
  have w: "aml_weights (sweep_state G h ws) = ws" for G h ws by (simp add: sweep_state_def)
  have "sub_loop sweep_prox [[1], [0]] 0 (sweep_state (Some [[1], [0]]) [[[1]], [[3]]] [0, 1])
          None 0 False =
        sub_loop sweep_prox [[1], [0]] 0
          (sweep_state (Some [[1], [0]]) [[[1]], [[3]], [[1]]] [2, 1]) (Some 2) 1 False"
    by (subst sub_loop.simps) (simp add: T w sweep_step_1 unchanged_def del: One_nat_def)
  also have "\<dots> = Inr (sweep_state (Some [[1], [0]]) [[[1]], [[3]], [[1]], [[1]]] [3, 1], True)"
    by (subst sub_loop.simps) (simp add: T w sweep_step_2 sweep_unchanged_2 del: One_nat_def)
  finally show ?thesis .
qed

lemma sweep_step_view1:
  "sub_step sweep_prox [[1], [0]] 1
       (sweep_state (Some [[1], [0]]) [[[1]], [[3]], [[1]], [[1]]] [3, 1]) =
     Inr (sweep_state (Some [[1], [0]]) [[[1]], [[14 / 5]], [[1]], [[1]], [[14 / 5]]] [3, 4])"
  by (simp add: sweep_eval)

text \<open>
  Claim C1, at a failing input: \<open>sweep_loop\<close> with \<open>T = 100\<close> and the default proximal
  operators. View 0 is at a fixed point, so its second sub-step finds the weights unchanged
  and sets \<open>converged\<close>. \<open>training_step\<close> then returns with view 1's weight still 3: its
  loop made none of its 100 sub-steps, although one sub-step of view 1 from that state
  moves its weight to 2.8, which \<open>np.allclose\<close> tells apart from 3.
\<close>

theorem converged_flag_cuts_later_views:
  "training_step svd_example sweep_prox sweep_views sweep_loop =
     Inr (sweep_state (Some [[1], [0]]) [[[1]], [[3]], [[1]], [[1]]] [3, 1])
   \<and> loop_weights (sweep_state (Some [[1], [0]]) [[[1]], [[3]], [[1]], [[1]]] [3, 1])
        = [[[1]], [[3]]]
   \<and> sub_step sweep_prox (sweep_views ! 1) 1
        (sweep_state (Some [[1], [0]]) [[[1]], [[3]], [[1]], [[1]]] [3, 1]) =
      Inr (sweep_state (Some [[1], [0]]) [[[1]], [[14 / 5]], [[1]], [[1]], [[14 / 5]]] [3, 4])
   \<and> \<not> allclose [[14 / 5]] [[3]]"
proof -
  have G: "sweep_loop\<lparr>aml_G := Some [[1], [0]]\<rparr> =
           sweep_state (Some [[1], [0]]) [[[1]], [[3]]] [0, 1]"
    by (simp add: sweep_loop_def sweep_state_def)
  have v: "view_loop sweep_prox sweep_views 0
             (sweep_state (Some [[1], [0]]) [[[1]], [[3]]] [0, 1]) False =
           Inr (sweep_state (Some [[1], [0]]) [[[1]], [[3]], [[1]], [[1]]] [3, 1], True)"
    by (simp add: sweep_views_def sweep_sub_loop_view0 sub_loop_converged del: One_nat_def)
  have f: "\<not> aml_tracking (sweep_state G' h ws)" "\<not> aml_convergence_checking (sweep_state G' h ws)"
    for G' h ws by (simp_all add: sweep_state_def)
  have g: "aml_gamma sweep_loop = 1 / 10" "aml_G sweep_loop = None"
    by (simp_all add: sweep_loop_def sweep_state_def)
  have t: "training_step svd_example sweep_prox sweep_views sweep_loop =
     Inr (sweep_state (Some [[1], [0]]) [[[1]], [[3]], [[1]], [[1]]] [3, 1])"
    by (simp add: training_step_def sweep_stack g sweep_target G v f del: One_nat_def)
  have l: "loop_weights (sweep_state (Some [[1], [0]]) [[[1]], [[3]], [[1]], [[1]]] [3, 1])
        = [[[1]], [[3]]]"
    by (simp add: loop_weights_def sweep_state_def)
  have s: "sub_step sweep_prox (sweep_views ! 1) 1
        (sweep_state (Some [[1], [0]]) [[[1]], [[3]], [[1]], [[1]]] [3, 1]) =
      Inr (sweep_state (Some [[1], [0]]) [[[1]], [[14 / 5]], [[1]], [[1]], [[14 / 5]]] [3, 4])"
    using sweep_step_view1 by (simp add: sweep_views_def del: One_nat_def)
  have c: "\<not> allclose [[14 / 5]] [[3]]"
    by (simp add: allclose_def isclose_def)
  from t l s c show ?thesis by simp
qed


text \<open>
  What the convergence test compares. At its second and later passes \<open>prev_weights\<close> is
  the address slot \<open>i\<close> held at the head of the pass, whose array the gradient step has
  just updated in place: the test compares the proximal map's output with its input, not
  with the previous iterate.
\<close>

lemma sub_step_alias:
  assumes "sub_step prox_ops view i st = Inr st'"
    and "i < length (aml_weights st)" and "aml_weights st ! i < length (aml_heap st)"
    and "aml_G st = Some G" and "prox_ops ! i = Some prox"
  shows "unchanged st' i (Some (aml_weights st ! i)) =
         (let g = mat_sub (aml_heap st ! (aml_weights st ! i))
                    (mat_scale (aml_learning_rate st)
                       (matmul (mat_T view)
                          (mat_sub (matmul view (aml_heap st ! (aml_weights st ! i))) G)))
          in allclose (prox g (aml_learning_rate st)) g)"
proof -
  have "i < length prox_ops"
    using assms(1,2,4) by (auto simp: sub_step_def Let_def py_get_def split: if_splits)
  then show ?thesis
    using assms by (auto simp: sub_step_def Let_def py_get_nat unchanged_def nth_append)
qed

text \<open>
  So view 1, run alone from \<open>converged = False\<close> with the default operator (the identity),
  stops after two sub-steps, at 2.62 after 2.8.
\<close>

lemma sweep_sub_loop_view1_alone:
  "sub_loop sweep_prox [[1], [0]] 1 (sweep_state (Some [[1], [0]]) [[[1]], [[3]]] [0, 1])
       None 0 False =
     Inr (sweep_state (Some [[1], [0]]) [[[1]], [[14 / 5]], [[131 / 50]], [[131 / 50]]] [0, 3],
          True)
   \<and> \<not> allclose [[131 / 50]] [[14 / 5]]"
proof -
  have T: "aml_T (sweep_state G h ws) = 100" for G h ws by (simp add: sweep_state_def)
  have w: "aml_weights (sweep_state G h ws) = ws" for G h ws by (simp add: sweep_state_def)
  have s1: "sub_step sweep_prox [[1], [0]] 1
              (sweep_state (Some [[1], [0]]) [[[1]], [[3]]] [0, 1]) =
            Inr (sweep_state (Some [[1], [0]]) [[[1]], [[14 / 5]], [[14 / 5]]] [0, 2])"
    by (simp add: sweep_eval)
  have s2: "sub_step sweep_prox [[1], [0]] 1
              (sweep_state (Some [[1], [0]]) [[[1]], [[14 / 5]], [[14 / 5]]] [0, 2]) =
            Inr (sweep_state (Some [[1], [0]])
                   [[[1]], [[14 / 5]], [[131 / 50]], [[131 / 50]]] [0, 3])"
    by (simp add: sweep_eval)
  have u: "unchanged (sweep_state (Some [[1], [0]])
                   [[[1]], [[14 / 5]], [[131 / 50]], [[131 / 50]]] [0, 3]) 1 (Some 2)"
    by (simp add: unchanged_def allclose_def isclose_def sweep_state_def)
  have "sub_loop sweep_prox [[1], [0]] 1 (sweep_state (Some [[1], [0]]) [[[1]], [[3]]] [0, 1])
          None 0 False =
        sub_loop sweep_prox [[1], [0]] 1
          (sweep_state (Some [[1], [0]]) [[[1]], [[14 / 5]], [[14 / 5]]] [0, 2]) (Some 2) 1 False"
    by (subst sub_loop.simps) (simp add: T w s1 unchanged_def del: One_nat_def)
  also have "\<dots> = Inr (sweep_state (Some [[1], [0]])
                   [[[1]], [[14 / 5]], [[131 / 50]], [[131 / 50]]] [0, 3], True)"
    by (subst sub_loop.simps) (simp add: T w s2 u del: One_nat_def)
  finally show ?thesis by (simp add: allclose_def isclose_def)
qed

end
